theory Spec2Isabelle
  imports Main "HOL-Library.Sublist"
begin

section \<open>Configuration values\<close>

text \<open>
  The script \<^verbatim>\<open>src/scripts/install_cloudinit.py\<close> reads its configuration as Python
  dictionaries. A value is \<^verbatim>\<open>None\<close>, a string, or a dictionary; a dictionary is an
  association list, in the iteration order of the Python \<^verbatim>\<open>dict\<close>.
\<close>

datatype pyval = PNone | PStr string | PDict "(string \<times> pyval) list"

text \<open>Python truthiness, as tested by \<^verbatim>\<open>if not x\<close> and \<^verbatim>\<open>if x\<close>.\<close>

fun truthy :: "pyval \<Rightarrow> bool" where
  "truthy PNone = False"
| "truthy (PStr s) = (s \<noteq> [])"
| "truthy (PDict d) = (d \<noteq> [])"

text \<open>Python \<^verbatim>\<open>==\<close>: dictionaries are equal when they hold the same keys with equal values,
  in any order.\<close>

fun py_eq :: "pyval \<Rightarrow> pyval \<Rightarrow> bool" where
  "py_eq PNone PNone = True"
| "py_eq (PStr a) (PStr b) = (a = b)"
| "py_eq (PDict a) (PDict b) =
     (set (map fst a) = set (map fst b) \<and>
      list_all (\<lambda>(k, v). case map_of b k of None \<Rightarrow> False | Some v' \<Rightarrow> py_eq v v') a)"
| "py_eq _ _ = False"

text \<open>\<^verbatim>\<open>d.get(key, default)\<close> on a dictionary.\<close>

definition dict_get :: "(string \<times> pyval) list \<Rightarrow> string \<Rightarrow> pyval \<Rightarrow> pyval" where
  "dict_get d k dflt = (case map_of d k of None \<Rightarrow> dflt | Some v \<Rightarrow> v)"

text \<open>\<^verbatim>\<open>" ".join(parts)\<close>.\<close>

fun join :: "string \<Rightarrow> string list \<Rightarrow> string" where
  "join sep [] = []"
| "join sep [x] = x"
| "join sep (x # y # ys) = x @ sep @ join sep (y # ys)"

section \<open>Effects and collaborators\<close>

text \<open>
  Every call that leaves the script is an event, recorded with the value the collaborator
  answered. A guest event carries the name of the guest profile the handle was built for.
  A log event carries the message as the source writes it (the text of the string literal;
  interpolated values are not rendered).
\<close>

datatype event =
    Exists string bool
  | Mkdir string
  | Download pyval string int
  | Decompress string string int
  | LogError string
  | LogInfo string
  | NewGuest string
  | Kill string
  | Initialize string string
  | RunLocal string int
  | Start string bool "string list" int
  | WaitForTermination string int bool
  | IsUp string int bool
  | Run string string int

text \<open>
  The collaborators are parameters of the model. Each answer may depend on everything that
  happened before the call (the events so far), so the file system, the hypervisor and the
  remote shell are unconstrained. \<^verbatim>\<open>pathlib\<close> is represented by the string form of a path.
  The collaborators answer through their return values, as their interface says; they are
  taken not to raise.
\<close>

record world =
  getconf_tbl :: "string \<Rightarrow> pyval option"
  path_str :: "string \<Rightarrow> string"
  path_parent :: "string \<Rightarrow> string"
  path_join :: "string \<Rightarrow> string \<Rightarrow> string"
  path_resolve :: "string \<Rightarrow> string"
  path_exists :: "event list \<Rightarrow> string \<Rightarrow> bool"
  download :: "event list \<Rightarrow> pyval \<Rightarrow> string \<Rightarrow> int"
  decompress_file :: "event list \<Rightarrow> string \<Rightarrow> string \<Rightarrow> int"
  run_local :: "event list \<Rightarrow> string \<Rightarrow> int"
  run :: "event list \<Rightarrow> string \<Rightarrow> string \<Rightarrow> int"
  guest_path :: "string \<Rightarrow> string"
  boot_img :: "string \<Rightarrow> string"
  guest_start :: "event list \<Rightarrow> string \<Rightarrow> bool \<Rightarrow> string list \<Rightarrow> int"
  guest_wait_for_termination :: "event list \<Rightarrow> string \<Rightarrow> int \<Rightarrow> bool"
  guest_is_up :: "event list \<Rightarrow> string \<Rightarrow> int \<Rightarrow> bool"

text \<open>\<^verbatim>\<open>cijoe.getconf(key, default)\<close>.\<close>

definition getconf :: "world \<Rightarrow> string \<Rightarrow> pyval \<Rightarrow> pyval" where
  "getconf w k dflt = (case getconf_tbl w k of None \<Rightarrow> dflt | Some v \<Rightarrow> v)"

datatype exn = TypeError | AttributeError

datatype outcome = Return int | Raise exn

text \<open>\<^verbatim>\<open>Path(x)\<close> accepts a string and raises \<^verbatim>\<open>TypeError\<close> on anything else.\<close>

fun Path :: "world \<Rightarrow> pyval \<Rightarrow> exn + string" where
  "Path w (PStr s) = Inr (path_str w s)"
| "Path w _ = Inl TypeError"

definition EINVAL :: int where
  "EINVAL = 22"

text \<open>Modelled from the spec: the default of the \<^verbatim>\<open>daemonize\<close> parameter of
  \<^verbatim>\<open>Guest.start\<close> (\<^verbatim>\<open>cijoe.qemu.wrapper\<close>), which the second start of the guest relies
  on; the spec describes that start as daemonized.\<close>

definition start_daemonize_default :: bool where
  "start_daemonize_default = True"

section \<open>The install phase\<close>

text \<open>
  A function of the script takes the events so far and returns its result with the events
  it adds. \<^verbatim>\<open>install_cloudinit\<close> returns \<^verbatim>\<open>None\<close> when it runs off its end, modelled
  as \<open>None\<close>; a returned number is \<open>Some\<close>. A string that ends in a single quote is
  written with its last character appended as \<open>CHR 0x27\<close>.

  The loop over the commands (lines 197 to 202): \<open>Some err\<close> is the early return.
\<close>

fun run_cmds :: "world \<Rightarrow> string \<Rightarrow> string list \<Rightarrow> event list \<Rightarrow> int option \<times> event list" where
  "run_cmds w guest [] h = (None, [])"
| "run_cmds w guest (cmd # cmds) h =
     (let err = run w h cmd ''default_freebsd'';
          e1 = [Run cmd ''default_freebsd'' err]
      in if err \<noteq> 0 then
           (Some err, e1 @ [LogError ''Error running cmd({cmd}): {err}'', Kill guest])
         else (let (r, e2) = run_cmds w guest cmds (h @ e1) in (r, e1 @ e2)))"

definition cmds :: "string list" where
  "cmds =
    [''su -m root -c 'pkg install -y $(pkg search -q cloud-init | head -n1)'' @ [CHR 0x27],
     ''su -m root -c 'sysrc cloudinit_enable=YES'' @ [CHR 0x27],
     ''su -m root -c 'poweroff'' @ [CHR 0x27]]"

definition install_cloudinit ::
  "world \<Rightarrow> string \<Rightarrow> string list \<Rightarrow> event list \<Rightarrow> int option \<times> event list" where
  "install_cloudinit w guest system_args h =
     (let e0 = [LogInfo ''initialization_tool is nuage-init, installing cloud-init''];
          freebsd_transport = getconf w ''cijoe.transport.default_freebsd'' PNone
      in if \<not> truthy freebsd_transport then
           (Some 1, e0 @ [LogError ''Default username and password for FreeBSD nuage-init not defined in config. It is probably freebsd:freebsd.''])
         else
      let err1 = guest_start w (h @ e0) guest False (system_args @ [''-no-reboot'']);
          e1 = e0 @ [Start guest False (system_args @ [''-no-reboot'']) err1]
      in if err1 \<noteq> 0 then
           (Some err1, e1 @ [LogError ''Failure starting guest with nuage-init''])
         else
      let t1 = guest_wait_for_termination w (h @ e1) guest 60;
          e2 = e1 @ [WaitForTermination guest 60 t1]
      in if \<not> t1 then
           (Some 1, e2 @ [LogError ''Guest was not terminated after 60 seconds''])
         else
      let err2 = guest_start w (h @ e2) guest start_daemonize_default system_args;
          e3 = e2 @ [Start guest start_daemonize_default system_args err2]
      in if err2 \<noteq> 0 then
           (Some err2, e3 @ [LogError ''Failure starting guest to install cloud-init''])
         else
      let up = guest_is_up w (h @ e3) guest 60;
          e4 = e3 @ [IsUp guest 60 up]
      in if \<not> up then
           (Some 1, e4 @ [LogError ''Guest is not up after 60 seconds''])
         else
      case run_cmds w guest cmds (h @ e4) of
        (Some err, e5) \<Rightarrow> (Some err, e4 @ e5)
      | (None, e5) \<Rightarrow>
      let t2 = guest_wait_for_termination w (h @ e4 @ e5) guest 60;
          e6 = e4 @ e5 @ [WaitForTermination guest 60 t2]
      in if \<not> t2 then
           (Some 1, e6 @ [LogError ''Guest was not terminated after 60 seconds''])
         else (None, e6))"

section \<open>The pipeline\<close>

text \<open>Lines 52 to 58: the download, skipped when the cache path exists. \<open>Some err\<close> is the
  early return.\<close>

definition download_nuageimage ::
  "world \<Rightarrow> string \<Rightarrow> pyval \<Rightarrow> event list \<Rightarrow> int option \<times> event list" where
  "download_nuageimage w nuage_image_path nuage_image_url h =
     (let ex = path_exists w h nuage_image_path;
          e1 = [Exists nuage_image_path ex]
      in if \<not> ex then
           (let e2 = e1 @ [Mkdir (path_parent w nuage_image_path)];
                err = download w (h @ e2) nuage_image_url nuage_image_path;
                e3 = e2 @ [Download nuage_image_url nuage_image_path err]
            in if err \<noteq> 0 then
                 (Some err, e3 @ [LogError ''download({nuage_image_url}), {nuage_image_path}: failed''])
               else (None, e3))
         else (None, e1))"

text \<open>Lines 60 to 72: the optional decompression. The result is the early return or the
  path that the rest of the pipeline uses as \<^verbatim>\<open>nuage_image_path\<close>.\<close>

definition decompress_nuageimage ::
  "world \<Rightarrow> (string \<times> pyval) list \<Rightarrow> string \<Rightarrow> event list \<Rightarrow> (outcome + string) \<times> event list" where
  "decompress_nuageimage w nuage nuage_image_path h =
     (let v = dict_get nuage ''decompressed_path'' PNone
      in if truthy v then
           (case Path w v of
              Inl x \<Rightarrow> (Inl (Raise x), [])
            | Inr p \<Rightarrow>
              let nuage_image_decompressed_path = path_resolve w p;
                  ex = path_exists w h nuage_image_decompressed_path;
                  e1 = [Exists nuage_image_decompressed_path ex]
              in if \<not> ex then
                   (let e2 = e1 @ [Mkdir (path_parent w nuage_image_decompressed_path)];
                        err = decompress_file w (h @ e2) nuage_image_path nuage_image_decompressed_path;
                        e3 = e2 @ [Decompress nuage_image_path nuage_image_decompressed_path err]
                    in if err \<noteq> 0 then
                         (Inl (Return err),
                          e3 @ [LogError ''decompress_file({nuage_image_path}, {nuage_image_decompressed_path}): failed''])
                       else (Inr nuage_image_decompressed_path, e3))
                 else (Inr nuage_image_decompressed_path, e1))
         else (Inr nuage_image_path, []))"

text \<open>Lines 52 to 72 together: the fetch of the base image.\<close>

definition fetch_nuageimage ::
  "world \<Rightarrow> (string \<times> pyval) list \<Rightarrow> string \<Rightarrow> pyval \<Rightarrow> event list \<Rightarrow> (outcome + string) \<times> event list" where
  "fetch_nuageimage w nuage nuage_image_path nuage_image_url h =
     (case download_nuageimage w nuage_image_path nuage_image_url h of
        (Some err, e1) \<Rightarrow> (Inl (Return err), e1)
      | (None, e1) \<Rightarrow>
          (case decompress_nuageimage w nuage nuage_image_path (h @ e1) of
             (r, e2) \<Rightarrow> (r, e1 @ e2)))"

text \<open>Lines 80 to 88: the loop over the guest profiles. \<open>Inl\<close> is the early return (or the
  exception of \<^verbatim>\<open>.get\<close> on a profile that is no dictionary), \<open>Inr\<close> the value of
  \<^verbatim>\<open>guest_name\<close> after the loop.\<close>

fun find_guest :: "pyval \<Rightarrow> (string \<times> pyval) list \<Rightarrow> (outcome + string option) \<times> event list" where
  "find_guest system_label [] = (Inr None, [])"
| "find_guest system_label ((cur_guest_name, cur_guest) # rest) =
     (case cur_guest of
        PDict g \<Rightarrow>
          (let guest_system_label = dict_get g ''system_label'' PNone
           in if guest_system_label = PNone then
                (Inl (Return EINVAL),
                 [LogError (''guest_name({cur_guest_name}) is missing 'system_label'' @ [CHR 0x27])])
              else if py_eq guest_system_label system_label then (Inr (Some cur_guest_name), [])
              else find_guest system_label rest)
      | _ \<Rightarrow> (Inl (Raise AttributeError), []))"

text \<open>Lines 74 to 92: the target label and the selection of the guest.\<close>

definition select_guest ::
  "world \<Rightarrow> (string \<times> pyval) list \<Rightarrow> (outcome + string) \<times> event list" where
  "select_guest w image_conf =
     (let system_label = dict_get image_conf ''system_label'' PNone;
          e1 = (if system_label = PNone
                then [LogError ''missing .system_label entry in configuration file'']
                else [])
      in case getconf w ''qemu.guests'' (PDict []) of
           PDict guests \<Rightarrow>
             (case find_guest system_label guests of
                (Inl out, e2) \<Rightarrow> (Inl out, e1 @ e2)
              | (Inr None, e2) \<Rightarrow>
                  (Inl (Return EINVAL),
                   e1 @ e2 @ [LogError ''Could not find a guest to use for cloudimage creation''])
              | (Inr (Some guest_name), e2) \<Rightarrow> (Inr guest_name, e1 @ e2))
         | _ \<Rightarrow> (Inl (Raise AttributeError), e1))"

definition seed_img :: "world \<Rightarrow> string \<Rightarrow> string" where
  "seed_img w guest = path_join w (guest_path w guest) ''seed.img''"

text \<open>Lines 94 to 134: the guest handle, the seed volume and the resize of the boot disk.
  \<open>Some err\<close> is the early return.\<close>

definition prepare_guest ::
  "world \<Rightarrow> string \<Rightarrow> string \<Rightarrow> string \<Rightarrow> string \<Rightarrow> event list \<Rightarrow> int option \<times> event list" where
  "prepare_guest w guest nuage_image_path nuage_image_metadata_path nuage_image_userdata_path h =
     (let e0 = [NewGuest guest, Kill guest, Initialize guest nuage_image_path];
          guest_metadata_path = path_join w (guest_path w guest) ''meta-data'';
          cp1 = ''cp '' @ nuage_image_metadata_path @ '' '' @ guest_metadata_path;
          err1 = run_local w (h @ e0) cp1;
          e1 = e0 @ [RunLocal cp1 err1];
          guest_userdata_path = path_join w (guest_path w guest) ''user-data'';
          cp2 = ''cp '' @ nuage_image_userdata_path @ '' '' @ guest_userdata_path;
          err2 = run_local w (h @ e1) cp2;
          e2 = e1 @ [RunLocal cp2 err2];
          nuage_cmd = join '' ''
            [''mkisofs'', ''-output'', seed_img w guest, ''-volid'', ''cidata'', ''-joliet'',
             ''-rock'', guest_userdata_path, guest_metadata_path];
          err3 = run_local w (h @ e2) nuage_cmd;
          e3 = e2 @ [RunLocal nuage_cmd err3]
      in if err3 \<noteq> 0 then (Some err3, e3 @ [LogError ''Failed creating {seed_img}''])
         else
      let info = ''qemu-img info '' @ boot_img w guest;
          e4 = e3 @ [RunLocal info (run_local w (h @ e3) info)];
          resize = ''qemu-img resize '' @ boot_img w guest @ '' 12G'';
          err5 = run_local w (h @ e4) resize;
          e5 = e4 @ [RunLocal resize err5]
      in if err5 \<noteq> 0 then (Some err5, e5 @ [LogError ''Failed resizing .qcow image''])
         else (None, e5 @ [RunLocal info (run_local w (h @ e5) info)]))"

text \<open>Lines 146 to 163: the copy to the destination and the checksum.\<close>

definition finalize_image ::
  "world \<Rightarrow> string \<Rightarrow> pyval \<Rightarrow> event list \<Rightarrow> outcome \<times> event list" where
  "finalize_image w guest cloud h =
     (case cloud of
        PDict c \<Rightarrow>
          (case Path w (dict_get c ''path'' PNone) of
             Inl x \<Rightarrow> (Raise x, [])
           | Inr cloud_path \<Rightarrow>
             let e0 = [Mkdir (path_parent w cloud_path)];
                 cp = ''cp '' @ boot_img w guest @ '' '' @ cloud_path;
                 err1 = run_local w (h @ e0) cp;
                 e1 = e0 @ [RunLocal cp err1]
             in if err1 \<noteq> 0 then (Return err1, e1 @ [LogError ''Failed copying to {cloud_path}''])
                else
             let sha = ''sha256sum '' @ cloud_path @ '' > '' @ cloud_path @ ''.sha256'';
                 err2 = run_local w (h @ e1) sha;
                 e2 = e1 @ [RunLocal sha err2]
             in if err2 \<noteq> 0 then
                  (Return err2,
                   e2 @ [LogError ''Failed computing sha256 sum of cloud_path({cloud_path})''])
                else
             let ls = ''ls -la '' @ cloud_path;
                 e3 = e2 @ [RunLocal ls (run_local w (h @ e2) ls)];
                 cat = ''cat '' @ cloud_path @ ''.sha256'';
                 e4 = e3 @ [RunLocal cat (run_local w (h @ e3) cat)]
             in (Return 0, e4))
      | _ \<Rightarrow> (Raise AttributeError, []))"

text \<open>Lines 94 to 163, for the selected guest.\<close>

definition provision_guest ::
  "world \<Rightarrow> string \<Rightarrow> pyval \<Rightarrow> string \<Rightarrow> string \<Rightarrow> string \<Rightarrow> event list \<Rightarrow> outcome \<times> event list" where
  "provision_guest w guest cloud nuage_image_path nuage_image_metadata_path
       nuage_image_userdata_path h =
     (case prepare_guest w guest nuage_image_path nuage_image_metadata_path
             nuage_image_userdata_path h of
        (Some err, e1) \<Rightarrow> (Return err, e1)
      | (None, e1) \<Rightarrow>
        let system_args = [] @ [''-cdrom'', seed_img w guest]
        in case install_cloudinit w guest system_args (h @ e1) of
             (Some err, e2) \<Rightarrow>
               if err \<noteq> 0 then (Return err, e1 @ e2 @ [LogError ''Could not install cloud-init''])
               else (case finalize_image w guest cloud (h @ e1 @ e2) of
                       (out, e3) \<Rightarrow> (out, e1 @ e2 @ e3))
           | (None, e2) \<Rightarrow>
               (case finalize_image w guest cloud (h @ e1 @ e2) of
                  (out, e3) \<Rightarrow> (out, e1 @ e2 @ e3)))"

text \<open>The whole of \<^verbatim>\<open>cloudimage_from_nuageimage\<close> (lines 34 to 163).\<close>

definition cloudimage_from_nuageimage ::
  "world \<Rightarrow> (string \<times> pyval) list \<Rightarrow> event list \<Rightarrow> outcome \<times> event list" where
  "cloudimage_from_nuageimage w image_conf h =
     (let nuage = dict_get image_conf ''nuage'' (PDict [])
      in if \<not> truthy nuage then
           (Return EINVAL, [LogError ''missing .nuage entry in configuration file''])
         else
      case nuage of
        PDict n \<Rightarrow>
          (case Path w (dict_get n ''path'' PNone) of
             Inl x \<Rightarrow> (Raise x, [])
           | Inr nuage_image_path \<Rightarrow>
          let nuage_image_url = dict_get n ''url'' PNone
          in case Path w (dict_get n ''metadata_path'' PNone) of
             Inl x \<Rightarrow> (Raise x, [])
           | Inr nuage_image_metadata_path \<Rightarrow>
          case Path w (dict_get n ''userdata_path'' PNone) of
             Inl x \<Rightarrow> (Raise x, [])
           | Inr nuage_image_userdata_path \<Rightarrow>
          let cloud = dict_get image_conf ''cloud'' (PDict [])
          in if \<not> truthy cloud then
               (Return EINVAL, [LogError ''missing .cloud entry in configuration file''])
             else
          case fetch_nuageimage w n nuage_image_path nuage_image_url h of
             (Inl out, e1) \<Rightarrow> (out, e1)
           | (Inr nuage_image_path', e1) \<Rightarrow>
          case select_guest w image_conf of
             (Inl out, e2) \<Rightarrow> (out, e1 @ e2)
           | (Inr guest_name, e2) \<Rightarrow>
          case provision_guest w guest_name cloud nuage_image_path' nuage_image_metadata_path
                 nuage_image_userdata_path (h @ e1 @ e2) of
             (out, e3) \<Rightarrow> (out, e1 @ e2 @ e3))
      | _ \<Rightarrow> (Raise AttributeError, []))"

text \<open>\<^verbatim>\<open>main\<close> (lines 209 to 220).\<close>

definition main :: "world \<Rightarrow> event list \<Rightarrow> outcome \<times> event list" where
  "main w h =
     (case getconf w ''system-imaging.bsd-image'' (PDict []) of
        PDict image_conf \<Rightarrow>
          (case cloudimage_from_nuageimage w image_conf h of
             (Return err, e) \<Rightarrow>
               if err \<noteq> 0 then
                 (Return err, e @ [LogError ''failed cloudimage_from_nuageimage(); err({err})''])
               else (Return 0, e)
           | (Raise x, e) \<Rightarrow> (Raise x, e))
      | _ \<Rightarrow> (Raise AttributeError, []))"

section \<open>Reading a run\<close>

text \<open>Recognisers for the events the properties speak about. The seed volume is built by
  the \<^verbatim>\<open>mkisofs\<close> command, the disk is resized by \<^verbatim>\<open>qemu-img resize\<close>, and the checksum
  is computed by \<^verbatim>\<open>sha256sum\<close>.\<close>

fun is_run :: "event \<Rightarrow> bool" where
  "is_run (Run c t e) = True"
| "is_run _ = False"

fun is_kill :: "event \<Rightarrow> bool" where
  "is_kill (Kill g) = True"
| "is_kill _ = False"

fun is_start :: "event \<Rightarrow> bool" where
  "is_start (Start g d a e) = True"
| "is_start _ = False"

fun is_boot :: "event \<Rightarrow> bool" where
  "is_boot (Start g d a e) = True"
| "is_boot (WaitForTermination g t b) = True"
| "is_boot (IsUp g t b) = True"
| "is_boot _ = False"

fun is_new_guest :: "event \<Rightarrow> bool" where
  "is_new_guest (NewGuest g) = True"
| "is_new_guest _ = False"

fun is_download :: "event \<Rightarrow> bool" where
  "is_download (Download u p e) = True"
| "is_download _ = False"

fun is_decompress :: "event \<Rightarrow> bool" where
  "is_decompress (Decompress s d e) = True"
| "is_decompress _ = False"

fun is_seed_build :: "event \<Rightarrow> bool" where
  "is_seed_build (RunLocal c e) = prefix ''mkisofs '' c"
| "is_seed_build _ = False"

fun is_resize :: "event \<Rightarrow> bool" where
  "is_resize (RunLocal c e) = prefix ''qemu-img resize '' c"
| "is_resize _ = False"

fun is_checksum :: "event \<Rightarrow> bool" where
  "is_checksum (RunLocal c e) = prefix ''sha256sum '' c"
| "is_checksum _ = False"

text \<open>The events of the stages before a guest handle exists (fetch and selection), and
  those of the preparation of the guest.\<close>

fun is_fetch_event :: "event \<Rightarrow> bool" where
  "is_fetch_event (Exists p b) = True"
| "is_fetch_event (Mkdir p) = True"
| "is_fetch_event (Download u p e) = True"
| "is_fetch_event (Decompress s d e) = True"
| "is_fetch_event (LogError m) = True"
| "is_fetch_event _ = False"

fun is_prepare_event :: "event \<Rightarrow> bool" where
  "is_prepare_event (NewGuest g) = True"
| "is_prepare_event (Kill g) = True"
| "is_prepare_event (Initialize g p) = True"
| "is_prepare_event (RunLocal c e) = True"
| "is_prepare_event (LogError m) = True"
| "is_prepare_event _ = False"

text \<open>The events of the install phase and of the finalize stage.\<close>

fun is_install_event :: "event \<Rightarrow> bool" where
  "is_install_event (LogInfo m) = True"
| "is_install_event (LogError m) = True"
| "is_install_event (Start g d a e) = True"
| "is_install_event (WaitForTermination g t b) = True"
| "is_install_event (IsUp g t b) = True"
| "is_install_event (Run c t e) = True"
| "is_install_event (Kill g) = True"
| "is_install_event _ = False"

fun is_finalize_event :: "event \<Rightarrow> bool" where
  "is_finalize_event (Mkdir p) = True"
| "is_finalize_event (RunLocal c e) = True"
| "is_finalize_event (LogError m) = True"
| "is_finalize_event _ = False"

text \<open>A guest profile is a dictionary; it is unlabeled when it has no \<^verbatim>\<open>system_label\<close>,
  and it matches a target label when its label is present and equal to the target.\<close>

fun is_profile :: "pyval \<Rightarrow> bool" where
  "is_profile (PDict d) = True"
| "is_profile _ = False"

fun unlabeled :: "pyval \<Rightarrow> bool" where
  "unlabeled (PDict d) = (dict_get d ''system_label'' PNone = PNone)"
| "unlabeled _ = False"

fun matches :: "pyval \<Rightarrow> pyval \<Rightarrow> bool" where
  "matches system_label (PDict d) =
     (dict_get d ''system_label'' PNone \<noteq> PNone \<and>
      py_eq (dict_get d ''system_label'' PNone) system_label)"
| "matches system_label _ = False"

section \<open>Concrete configurations and collaborators\<close>

text \<open>A lexical parent directory, enough for the concrete runs below.\<close>

definition dirname :: "string \<Rightarrow> string" where
  "dirname p = rev (drop 1 (dropWhile (\<lambda>c. c \<noteq> CHR ''/'') (rev p)))"

text \<open>A configuration with one labeled guest profile and an image that names it, and
  collaborators that always succeed: every path exists, every command returns 0, the
  guest halts and comes up in time.\<close>

definition guests_ok :: pyval where
  "guests_ok = PDict [(''bsd'', PDict [(''system_label'', PStr ''freebsd'')])]"

definition image_ok :: "(string \<times> pyval) list" where
  "image_ok =
     [(''nuage'', PDict [(''path'', PStr ''cache/bsd.qcow2''),
                         (''url'', PStr ''https://example.org/bsd.qcow2''),
                         (''metadata_path'', PStr ''aux/meta''),
                         (''userdata_path'', PStr ''aux/user'')]),
      (''cloud'', PDict [(''path'', PStr ''out/cloud.qcow2'')]),
      (''system_label'', PStr ''freebsd'')]"

definition world_ok :: world where
  "world_ok =
     \<lparr> getconf_tbl = map_of
         [(''qemu.guests'', guests_ok),
          (''cijoe.transport.default_freebsd'', PDict [(''username'', PStr ''freebsd'')]),
          (''system-imaging.bsd-image'', PDict image_ok)],
       path_str = (\<lambda>s. s),
       path_parent = dirname,
       path_join = (\<lambda>p n. p @ ''/'' @ n),
       path_resolve = (\<lambda>p. ''/srv/'' @ p),
       path_exists = (\<lambda>h p. True),
       download = (\<lambda>h u p. 0),
       decompress_file = (\<lambda>h s d. 0),
       run_local = (\<lambda>h c. 0),
       run = (\<lambda>h c t. 0),
       guest_path = (\<lambda>g. ''guests/'' @ g),
       boot_img = (\<lambda>g. ''guests/'' @ g @ ''/boot.img''),
       guest_start = (\<lambda>h g d a. 0),
       guest_wait_for_termination = (\<lambda>h g t. True),
       guest_is_up = (\<lambda>h g t. True) \<rparr>"

text \<open>The same, with no default transport for FreeBSD in the configuration.\<close>

definition world_no_transport :: world where
  "world_no_transport = world_ok\<lparr> getconf_tbl := map_of [(''qemu.guests'', guests_ok)] \<rparr>"

text \<open>The same as \<open>world_ok\<close>, with a guest that never comes up.\<close>

definition world_not_up :: world where
  "world_not_up = world_ok\<lparr> guest_is_up := (\<lambda>h g t. False) \<rparr>"

text \<open>The same as \<open>world_ok\<close>, with a remote shell whose second command fails with code 70.\<close>

definition world_cmd_fails :: world where
  "world_cmd_fails = world_ok\<lparr> run := (\<lambda>h c t. if length (filter is_run h) = 1 then 70 else 0) \<rparr>"

text \<open>Two profile sets with one labeled and one unlabeled profile, in either order.\<close>

definition guests_unlabeled_last :: pyval where
  "guests_unlabeled_last =
     PDict [(''bsd'', PDict [(''system_label'', PStr ''freebsd'')]),
            (''spare'', PDict [(''cpu'', PStr ''host'')])]"

definition guests_unlabeled_first :: pyval where
  "guests_unlabeled_first =
     PDict [(''spare'', PDict [(''cpu'', PStr ''host'')]),
            (''bsd'', PDict [(''system_label'', PStr ''freebsd'')])]"

definition world_unlabeled_last :: world where
  "world_unlabeled_last = world_ok\<lparr> getconf_tbl := map_of
      [(''qemu.guests'', guests_unlabeled_last),
       (''cijoe.transport.default_freebsd'', PDict [(''username'', PStr ''freebsd'')])] \<rparr>"

definition world_unlabeled_first :: world where
  "world_unlabeled_first = world_ok\<lparr> getconf_tbl := map_of
      [(''qemu.guests'', guests_unlabeled_first),
       (''cijoe.transport.default_freebsd'', PDict [(''username'', PStr ''freebsd'')])] \<rparr>"

text \<open>An image whose cache path holds a compressed file, with a decompressed path configured,
  and a file system where only the cache path exists.\<close>

definition image_compressed :: "(string \<times> pyval) list" where
  "image_compressed =
     [(''nuage'', PDict [(''path'', PStr ''cache/bsd.qcow2.xz''),
                         (''url'', PStr ''https://example.org/bsd.qcow2.xz''),
                         (''decompressed_path'', PStr ''cache/bsd.qcow2''),
                         (''metadata_path'', PStr ''aux/meta''),
                         (''userdata_path'', PStr ''aux/user'')]),
      (''cloud'', PDict [(''path'', PStr ''out/cloud.qcow2'')]),
      (''system_label'', PStr ''freebsd'')]"

definition world_cached :: world where
  "world_cached = world_ok\<lparr> path_exists := (\<lambda>h p. p = ''cache/bsd.qcow2.xz'') \<rparr>"

text \<open>Images that lack the source path, the destination path, or the target label.\<close>

definition image_no_nuage_path :: "(string \<times> pyval) list" where
  "image_no_nuage_path =
     [(''nuage'', PDict [(''url'', PStr ''https://example.org/bsd.qcow2''),
                         (''metadata_path'', PStr ''aux/meta''),
                         (''userdata_path'', PStr ''aux/user'')]),
      (''cloud'', PDict [(''path'', PStr ''out/cloud.qcow2'')]),
      (''system_label'', PStr ''freebsd'')]"

definition image_no_cloud_path :: "(string \<times> pyval) list" where
  "image_no_cloud_path =
     [(''nuage'', PDict [(''path'', PStr ''cache/bsd.qcow2''),
                         (''url'', PStr ''https://example.org/bsd.qcow2''),
                         (''metadata_path'', PStr ''aux/meta''),
                         (''userdata_path'', PStr ''aux/user'')]),
      (''cloud'', PDict [(''checksum'', PStr ''sha256'')]),
      (''system_label'', PStr ''freebsd'')]"

definition image_no_label :: "(string \<times> pyval) list" where
  "image_no_label =
     [(''nuage'', PDict [(''path'', PStr ''cache/bsd.qcow2''),
                         (''url'', PStr ''https://example.org/bsd.qcow2''),
                         (''metadata_path'', PStr ''aux/meta''),
                         (''userdata_path'', PStr ''aux/user'')]),
      (''cloud'', PDict [(''path'', PStr ''out/cloud.qcow2'')])]"

text \<open>The same as \<open>world_ok\<close>, with the two copies of the payload files failing with code 1.\<close>

definition world_cp_fails :: world where
  "world_cp_fails = world_ok\<lparr> run_local := (\<lambda>h c. if prefix ''cp aux/'' c then 1 else 0) \<rparr>"

section \<open>The shape of a run\<close>

text \<open>
  Every run of the pipeline is made of the events of fetch and selection, then those of the
  preparation of the guest, then those of the install phase, then those of the finalize
  stage, and it ends at the first stage that fails. The lemmas of this section say which
  events each stage can add, and \<open>pipeline_cases\<close> splits a run accordingly.
\<close>

lemmas pipeline_defs =
  cloudimage_from_nuageimage_def fetch_nuageimage_def download_nuageimage_def
  decompress_nuageimage_def select_guest_def provision_guest_def prepare_guest_def
  install_cloudinit_def finalize_image_def cmds_def seed_img_def start_daemonize_default_def
  dict_get_def getconf_def Let_def

lemmas world_defs =
  world_ok_def world_no_transport_def world_not_up_def world_cmd_fails_def
  guests_unlabeled_last_def guests_unlabeled_first_def world_unlabeled_last_def
  world_unlabeled_first_def image_compressed_def world_cached_def image_no_nuage_path_def
  image_no_cloud_path_def image_no_label_def world_cp_fails_def image_ok_def guests_ok_def dirname_def

lemma run_cmds_3:
  "run_cmds w g [c1, c2, c3] h =
    (let r1 = run w h c1 ''default_freebsd''; v1 = Run c1 ''default_freebsd'' r1 in
     if r1 \<noteq> 0 then (Some r1, [v1, LogError ''Error running cmd({cmd}): {err}'', Kill g]) else
     let r2 = run w (h @ [v1]) c2 ''default_freebsd''; v2 = Run c2 ''default_freebsd'' r2 in
     if r2 \<noteq> 0 then (Some r2, [v1, v2, LogError ''Error running cmd({cmd}): {err}'', Kill g]) else
     let r3 = run w (h @ [v1, v2]) c3 ''default_freebsd''; v3 = Run c3 ''default_freebsd'' r3 in
     if r3 \<noteq> 0 then (Some r3, [v1, v2, v3, LogError ''Error running cmd({cmd}): {err}'', Kill g]) else
     (None, [v1, v2, v3]))"
  by (simp add: Let_def)

lemma fetch_event_kinds:
  "is_fetch_event x \<Longrightarrow> \<not> is_run x \<and> \<not> is_kill x \<and> \<not> is_start x \<and> \<not> is_boot x \<and>
     \<not> is_new_guest x \<and> \<not> is_seed_build x \<and> \<not> is_resize x \<and> \<not> is_checksum x"
  by (cases x) simp_all

lemma prepare_event_kinds:
  "is_prepare_event x \<Longrightarrow> \<not> is_run x \<and> \<not> is_start x \<and> \<not> is_boot x"
  by (cases x) simp_all

lemma download_events: "download_nuageimage w p u h = (r, e) \<Longrightarrow> list_all is_fetch_event e \<and> r \<noteq> Some 0"
  by (auto simp: download_nuageimage_def Let_def split: if_splits)

lemma decompress_events: "decompress_nuageimage w n p h = (r, e) \<Longrightarrow> list_all is_fetch_event e \<and> r \<noteq> Inl (Return 0)"
  by (auto simp: decompress_nuageimage_def Let_def split: if_splits sum.splits)

lemma fetch_events: "fetch_nuageimage w n p u h = (r, e) \<Longrightarrow> list_all is_fetch_event e \<and> r \<noteq> Inl (Return 0)"
  by (auto simp: fetch_nuageimage_def split: prod.splits option.splits dest!: download_events decompress_events)

lemma find_guest_events: "find_guest l gs = (r, e) \<Longrightarrow> list_all is_fetch_event e \<and> r \<noteq> Inl (Return 0)"
  by (induction l gs rule: find_guest.induct) (auto simp: Let_def EINVAL_def split: if_splits pyval.splits)

lemma select_events: "select_guest w i = (r, e) \<Longrightarrow> list_all is_fetch_event e \<and> r \<noteq> Inl (Return 0)"
  by (auto simp: select_guest_def Let_def EINVAL_def split: if_splits pyval.splits prod.splits sum.splits option.splits dest: find_guest_events)

lemma find_guest_Inr:
  assumes "find_guest l gs = (Inr (Some g), e)"
  shows "\<exists>before c after. gs = before @ (g, c) # after \<and> matches l c \<and>
           list_all (\<lambda>(m, d). is_profile d \<and> \<not> unlabeled d \<and> \<not> matches l d) before"
  using assms
proof (induction gs)
  case Nil
  then show ?case by simp
next
  case (Cons a gs)
  obtain m d where a: "a = (m, d)" by (cases a)
  from Cons.prems a obtain x where d: "d = PDict x" by (cases d) auto
  from Cons.prems a d have lab: "dict_get x ''system_label'' PNone \<noteq> PNone"
    by (auto simp: Let_def split: if_splits)
  show ?case
  proof (cases "py_eq (dict_get x ''system_label'' PNone) l")
    case True
    with Cons.prems a d lab have "g = m" by (simp add: Let_def)
    with True lab a d have "a # gs = [] @ (g, d) # gs \<and> matches l d \<and>
        list_all (\<lambda>(m, d). is_profile d \<and> \<not> unlabeled d \<and> \<not> matches l d) []"
      by simp
    then show ?thesis by blast
  next
    case False
    with Cons.prems a d lab have "find_guest l gs = (Inr (Some g), e)" by (simp add: Let_def)
    from Cons.IH[OF this] obtain before c after where
      r: "gs = before @ (g, c) # after" "matches l c"
         "list_all (\<lambda>(m, d). is_profile d \<and> \<not> unlabeled d \<and> \<not> matches l d) before"
      by blast
    from r False lab a d have "a # gs = (a # before) @ (g, c) # after \<and> matches l c \<and>
        list_all (\<lambda>(m, d). is_profile d \<and> \<not> unlabeled d \<and> \<not> matches l d) (a # before)"
      by simp
    then show ?thesis by blast
  qed
qed

lemma select_guest_Inr:
  assumes "fst (select_guest w image_conf) = Inr g"
  shows "\<exists>before c after.
           getconf w ''qemu.guests'' (PDict []) = PDict (before @ (g, c) # after) \<and>
           matches (dict_get image_conf ''system_label'' PNone) c \<and>
           list_all (\<lambda>(m, d). is_profile d \<and> \<not> unlabeled d \<and>
                       \<not> matches (dict_get image_conf ''system_label'' PNone) d) before"
proof -
  from assms obtain gs e where
    gs: "getconf w ''qemu.guests'' (PDict []) = PDict gs" and
    fg: "find_guest (dict_get image_conf ''system_label'' PNone) gs = (Inr (Some g), e)"
    by (auto simp: select_guest_def Let_def
        split: pyval.splits prod.splits sum.splits option.splits if_splits)
  from find_guest_Inr[OF fg] gs show ?thesis by auto
qed

lemma cloudimage_cases:
  assumes "cloudimage_from_nuageimage w image_conf h = (out, evs)"
  shows "(list_all is_fetch_event evs \<and> out \<noteq> Return 0) \<or>
    (\<exists>pre g p md ud e4. evs = pre @ e4 \<and> list_all is_fetch_event pre \<and>
      provision_guest w g (dict_get image_conf ''cloud'' (PDict [])) p md ud (h @ pre) = (out, e4) \<and>
      fst (select_guest w image_conf) = Inr g)"
  using assms
  unfolding cloudimage_from_nuageimage_def Let_def
  apply (simp add: EINVAL_def split: if_splits pyval.splits prod.splits sum.splits option.splits)
  by (auto dest!: fetch_events select_events)

lemma install_cloudinit_Some: "install_cloudinit w g a h = (Some err, e) \<Longrightarrow> err \<noteq> 0"
  by (auto simp: install_cloudinit_def Let_def cmds_def run_cmds_3 simp del: run_cmds.simps split: if_splits)

lemma prepare_guest_Some: "prepare_guest w g p md ud h = (Some err, e) \<Longrightarrow> err \<noteq> 0"
  by (auto simp: prepare_guest_def Let_def split: if_splits)

lemma prepare_guest_events: "prepare_guest w g p md ud h = (r, e) \<Longrightarrow> list_all is_prepare_event e"
  by (auto simp: prepare_guest_def Let_def split: if_splits)

lemma provision_cases:
  assumes "provision_guest w g cloud p md ud h = (out, evs)"
  shows "(\<exists>err. prepare_guest w g p md ud h = (Some err, evs) \<and> out = Return err \<and> err \<noteq> 0) \<or>
    (\<exists>e1 e2 err. prepare_guest w g p md ud h = (None, e1) \<and>
       install_cloudinit w g [''-cdrom'', seed_img w g] (h @ e1) = (Some err, e2) \<and> err \<noteq> 0 \<and>
       out = Return err \<and> evs = e1 @ e2 @ [LogError ''Could not install cloud-init'']) \<or>
    (\<exists>e1 e2 e3. prepare_guest w g p md ud h = (None, e1) \<and>
       install_cloudinit w g [''-cdrom'', seed_img w g] (h @ e1) = (None, e2) \<and>
       finalize_image w g cloud (h @ e1 @ e2) = (out, e3) \<and> evs = e1 @ e2 @ e3)"
  using assms unfolding provision_guest_def Let_def
  by (auto split: prod.splits option.splits if_splits dest: install_cloudinit_Some prepare_guest_Some)

lemma pipeline_cases [consumes 1, case_names early prepare_failed install_failed finalized]:
  assumes "cloudimage_from_nuageimage w image_conf h = (out, evs)"
  obtains (early) "list_all is_fetch_event evs" "out \<noteq> Return 0"
  | (prepare_failed) pre g p md ud e1 err where
      "list_all is_fetch_event pre" "prepare_guest w g p md ud (h @ pre) = (Some err, e1)"
      "out = Return err" "err \<noteq> 0" "evs = pre @ e1"
      "fst (select_guest w image_conf) = Inr g"
  | (install_failed) pre g p md ud e1 e2 err where
      "list_all is_fetch_event pre" "prepare_guest w g p md ud (h @ pre) = (None, e1)"
      "install_cloudinit w g [''-cdrom'', seed_img w g] (h @ pre @ e1) = (Some err, e2)"
      "err \<noteq> 0" "out = Return err"
      "evs = pre @ e1 @ e2 @ [LogError ''Could not install cloud-init'']"
      "fst (select_guest w image_conf) = Inr g"
  | (finalized) pre g p md ud e1 e2 e3 where
      "list_all is_fetch_event pre" "prepare_guest w g p md ud (h @ pre) = (None, e1)"
      "install_cloudinit w g [''-cdrom'', seed_img w g] (h @ pre @ e1) = (None, e2)"
      "finalize_image w g (dict_get image_conf ''cloud'' (PDict [])) (h @ pre @ e1 @ e2) = (out, e3)"
      "evs = pre @ e1 @ e2 @ e3"
      "fst (select_guest w image_conf) = Inr g"
proof -
  from cloudimage_cases[OF assms] show thesis
  proof (elim disjE exE conjE)
    assume "list_all is_fetch_event evs" "out \<noteq> Return 0"
    then show thesis by (rule early)
  next
    fix pre g p md ud e4
    assume a: "evs = pre @ e4" "list_all is_fetch_event pre"
      "provision_guest w g (dict_get image_conf ''cloud'' (PDict [])) p md ud (h @ pre) = (out, e4)"
      "fst (select_guest w image_conf) = Inr g"
    from provision_cases[OF a(3)] show thesis
    proof (elim disjE exE conjE)
      fix err assume "prepare_guest w g p md ud (h @ pre) = (Some err, e4)" "out = Return err" "err \<noteq> 0"
      with a(1,2,4) show thesis by (intro prepare_failed[where pre=pre and ?e1.0=e4 and err=err]) simp_all
    next
      fix e1 e2 err
      assume "prepare_guest w g p md ud (h @ pre) = (None, e1)"
        "install_cloudinit w g [''-cdrom'', seed_img w g] ((h @ pre) @ e1) = (Some err, e2)"
        "err \<noteq> 0" "out = Return err" "e4 = e1 @ e2 @ [LogError ''Could not install cloud-init'']"
      with a(1,2,4) show thesis
        by (intro install_failed[where pre=pre and ?e1.0=e1 and ?e2.0=e2 and err=err]) simp_all
    next
      fix e1 e2 e3
      assume "prepare_guest w g p md ud (h @ pre) = (None, e1)"
        "install_cloudinit w g [''-cdrom'', seed_img w g] ((h @ pre) @ e1) = (None, e2)"
        "finalize_image w g (dict_get image_conf ''cloud'' (PDict [])) ((h @ pre) @ e1 @ e2) = (out, e3)"
        "e4 = e1 @ e2 @ e3"
      with a(1,2,4) show thesis
        by (intro finalized[where pre=pre and ?e1.0=e1 and ?e2.0=e2 and ?e3.0=e3]) simp_all
    qed
  qed
qed

lemma finalize_event_kinds:
  "is_finalize_event x \<Longrightarrow> \<not> is_run x \<and> \<not> is_kill x \<and> \<not> is_start x \<and> \<not> is_boot x \<and>
     \<not> is_new_guest x \<and> \<not> is_download x \<and> \<not> is_decompress x"
  by (cases x) simp_all

lemma install_event_kinds:
  "is_install_event x \<Longrightarrow> \<not> is_new_guest x \<and> \<not> is_seed_build x \<and> \<not> is_resize x \<and>
     \<not> is_checksum x \<and> \<not> is_download x \<and> \<not> is_decompress x"
  by (cases x) simp_all

lemma finalize_image_events: "finalize_image w g c h = (out, e) \<Longrightarrow> list_all is_finalize_event e"
  by (auto simp: finalize_image_def Let_def split: if_splits pyval.splits sum.splits)

lemma install_cloudinit_events: "install_cloudinit w g a h = (r, e) \<Longrightarrow> list_all is_install_event e"
  by (auto simp: install_cloudinit_def Let_def cmds_def run_cmds_3 simp del: run_cmds.simps split: if_splits)

lemma prepare_guest_no_checksum: "prepare_guest w g p md ud h = (r, e) \<Longrightarrow> filter is_checksum e = []"
  by (auto simp: prepare_guest_def Let_def split: if_splits)

lemma filter_dropWhile_empty: "filter Q xs = [] \<Longrightarrow> filter Q (dropWhile P xs) = []"
  by (induction xs) (auto split: if_splits)

lemma install_cloudinit_not_up:
  assumes "install_cloudinit w g a h = (r, e)" and "IsUp g' t False \<in> set e"
  shows "r = Some 1 \<and> t = 60 \<and> g' = g \<and> filter is_run e = [] \<and> filter is_kill e = [] \<and>
    (\<exists>e'. e = e' @ [IsUp g 60 False, LogError ''Guest is not up after 60 seconds''])"
  using assms
  by (auto simp: install_cloudinit_def Let_def cmds_def run_cmds_3 simp del: run_cmds.simps split: if_splits)

lemma install_cloudinit_cmd_failed:
  assumes "install_cloudinit w g a h = (r, e)" and "Run c t err \<in> set e" and "err \<noteq> 0"
  shows "r = Some err \<and>
    (\<exists>e'. e = e' @ [Run c t err, LogError ''Error running cmd({cmd}): {err}'', Kill g] \<and>
          filter is_kill e' = [] \<and> (\<exists>x\<in>set e'. is_start x))"
  using assms
  by (auto simp: install_cloudinit_def Let_def cmds_def run_cmds_3 simp del: run_cmds.simps split: if_splits)

lemma install_cloudinit_boot:
  assumes "install_cloudinit w g args h = (r, e)"
  shows "(\<exists>a b c d f. prefix (filter is_boot e)
            [Start g False (args @ [''-no-reboot'']) a, WaitForTermination g 60 b,
             Start g True args c, IsUp g 60 d, WaitForTermination g 60 f]) \<and>
         (r = None \<longrightarrow> filter is_boot e =
            [Start g False (args @ [''-no-reboot'']) 0, WaitForTermination g 60 True,
             Start g True args 0, IsUp g 60 True, WaitForTermination g 60 True])"
  using assms
  by (auto simp: install_cloudinit_def Let_def cmds_def run_cmds_3 start_daemonize_default_def
      simp del: run_cmds.simps split: if_splits)


lemma prepare_guest_None:
  assumes "prepare_guest w g p md ud h = (None, e)"
  shows "\<exists>r1 r2 r3 r4. e =
     [NewGuest g, Kill g, Initialize g p,
      RunLocal (''cp '' @ md @ '' '' @ path_join w (guest_path w g) ''meta-data'') r1,
      RunLocal (''cp '' @ ud @ '' '' @ path_join w (guest_path w g) ''user-data'') r2,
      RunLocal (join '' '' [''mkisofs'', ''-output'', seed_img w g, ''-volid'', ''cidata'',
                 ''-joliet'', ''-rock'', path_join w (guest_path w g) ''user-data'',
                 path_join w (guest_path w g) ''meta-data'']) 0,
      RunLocal (''qemu-img info '' @ boot_img w g) r3,
      RunLocal (''qemu-img resize '' @ boot_img w g @ '' 12G'') 0,
      RunLocal (''qemu-img info '' @ boot_img w g) r4]"
  using assms unfolding prepare_guest_def Let_def
  by (simp split: if_splits del: join.simps) blast

lemma install_cloudinit_None:
  assumes "install_cloudinit w g args h = (None, e)"
  shows "e =
     [LogInfo ''initialization_tool is nuage-init, installing cloud-init'',
      Start g False (args @ [''-no-reboot'']) 0,
      WaitForTermination g 60 True,
      Start g True args 0,
      IsUp g 60 True,
      Run (cmds ! 0) ''default_freebsd'' 0,
      Run (cmds ! 1) ''default_freebsd'' 0,
      Run (cmds ! 2) ''default_freebsd'' 0,
      WaitForTermination g 60 True]"
  using assms
  by (auto simp: install_cloudinit_def Let_def cmds_def run_cmds_3 start_daemonize_default_def
      simp del: run_cmds.simps split: if_splits)

lemma finalize_image_ok:
  assumes "finalize_image w g cloud h = (Return 0, e)"
  shows "\<exists>dst r1 r2. e =
     [Mkdir (path_parent w dst),
      RunLocal (''cp '' @ boot_img w g @ '' '' @ dst) 0,
      RunLocal (''sha256sum '' @ dst @ '' > '' @ dst @ ''.sha256'') 0,
      RunLocal (''ls -la '' @ dst) r1,
      RunLocal (''cat '' @ dst @ ''.sha256'') r2]"
  using assms unfolding finalize_image_def Let_def
  by (simp split: if_splits pyval.splits sum.splits) blast

lemma find_guest_first_decisive:
  assumes "list_all (\<lambda>(m, d). is_profile d \<and> \<not> unlabeled d \<and> \<not> matches l d) pre"
  shows "find_guest l (pre @ (n, c) # post) = find_guest l ((n, c) # post)"
  using assms
proof (induction pre)
  case Nil
  then show ?case by simp
next
  case (Cons a pre)
  obtain m d where a: "a = (m, d)" by (cases a)
  with Cons.prems obtain g where d: "d = PDict g" by (cases d) auto
  have "find_guest l ((m, PDict g) # (pre @ (n, c) # post)) = find_guest l (pre @ (n, c) # post)"
    using Cons.prems a d by (subst find_guest.simps) (auto simp: Let_def simp del: find_guest.simps)
  then show ?case using Cons.IH Cons.prems a d by (simp del: find_guest.simps)
qed

section \<open>The install phase without a transport\<close>

text \<open>
  C10. If the configuration key \<^verbatim>\<open>cijoe.transport.default_freebsd\<close> is absent or holds a
  falsy value, the install phase returns the non-zero code 1 before the guest is started:
  it only logs, so no boot, no wait and no remote command is attempted.
\<close>

theorem install_cloudinit_without_transport:
  assumes "\<not> truthy (getconf w ''cijoe.transport.default_freebsd'' PNone)"
  shows "install_cloudinit w guest system_args h =
           (Some 1,
            [LogInfo ''initialization_tool is nuage-init, installing cloud-init'',
             LogError ''Default username and password for FreeBSD nuage-init not defined in config. It is probably freebsd:freebsd.''])
         \<and> filter is_boot (snd (install_cloudinit w guest system_args h)) = []
         \<and> filter is_run (snd (install_cloudinit w guest system_args h)) = []"
  using assms by (simp add: install_cloudinit_def)

theorem install_cloudinit_without_transport_witness:
  "\<not> truthy (getconf world_no_transport ''cijoe.transport.default_freebsd'' PNone)
   \<and> fst (install_cloudinit world_no_transport ''bsd'' [''-cdrom'', ''seed.img''] []) = Some 1
   \<and> filter is_boot (snd (install_cloudinit world_no_transport ''bsd'' [''-cdrom'', ''seed.img''] [])) = []
   \<and> filter is_run (snd (install_cloudinit world_no_transport ''bsd'' [''-cdrom'', ''seed.img''] [])) = []"
proof -
  have a: "\<not> truthy (getconf world_no_transport ''cijoe.transport.default_freebsd'' PNone)"
    by (simp add: getconf_def world_defs)
  from install_cloudinit_without_transport[OF a, of "''bsd''" "[''-cdrom'', ''seed.img'']" "[]"] a
  show ?thesis by simp
qed

section \<open>The readiness timeout\<close>

text \<open>
  C5. In every run of the pipeline in which the readiness wait answers that the guest is not
  up, the wait was the one bounded at 60 seconds, the pipeline returns the non-zero code 1,
  no install-script command is issued, the guest is not killed at any point from its first
  start on, and the run ends with the readiness report and the abort of the install.
\<close>

theorem readiness_timeout_aborts:
  assumes "cloudimage_from_nuageimage w image_conf h = (out, evs)"
    and "IsUp g t False \<in> set evs"
  shows "out = Return 1 \<and> t = 60 \<and> filter is_run evs = [] \<and>
    filter is_kill (dropWhile (\<lambda>e. \<not> is_start e) evs) = [] \<and>
    (\<exists>pre. evs = pre @ [IsUp g 60 False, LogError ''Guest is not up after 60 seconds'',
                         LogError ''Could not install cloud-init''])"
  using assms(1)
proof (cases rule: pipeline_cases)
  case early
  with assms(2) show ?thesis by (auto simp: list_all_iff)
next
  case (prepare_failed pre g p md ud e1 err)
  from prepare_guest_events[OF prepare_failed(2)] prepare_failed(1,5) assms(2)
  show ?thesis by (auto simp: list_all_iff)
next
  case (install_failed pre g' p md ud e1 e2 err)
  note pe = prepare_guest_events[OF install_failed(2)]
  from assms(2) install_failed(1,6) pe have "IsUp g t False \<in> set e2"
    by (auto simp: list_all_iff)
  from install_cloudinit_not_up[OF install_failed(3) this]
  obtain e' where f: "err = 1" "t = 60" "g = g'" "filter is_run e2 = []" "filter is_kill e2 = []"
    "e2 = e' @ [IsUp g' 60 False, LogError ''Guest is not up after 60 seconds'']"
    by auto
  have nostart: "\<forall>x\<in>set (pre @ e1). \<not> is_start x"
    using install_failed(1) pe by (auto simp: list_all_iff dest: fetch_event_kinds prepare_event_kinds)
  have norun: "filter is_run (pre @ e1) = []"
    using install_failed(1) pe
    by (auto simp: list_all_iff filter_empty_conv dest: fetch_event_kinds prepare_event_kinds)
  have "dropWhile (\<lambda>e. \<not> is_start e) evs =
      dropWhile (\<lambda>e. \<not> is_start e) (e2 @ [LogError ''Could not install cloud-init''])"
    using dropWhile_append2[of "pre @ e1" "\<lambda>e. \<not> is_start e"] nostart install_failed(6) by simp
  moreover have "filter is_kill (e2 @ [LogError ''Could not install cloud-init'']) = []"
    using f(5) by simp
  ultimately have "filter is_kill (dropWhile (\<lambda>e. \<not> is_start e) evs) = []"
    by (simp only: filter_dropWhile_empty)
  moreover have "filter is_run evs = []" using norun f(4) install_failed(6) by simp
  moreover have "evs = (pre @ e1 @ e') @ [IsUp g 60 False, LogError ''Guest is not up after 60 seconds'',
                         LogError ''Could not install cloud-init'']"
    using install_failed(6) f(3,6) by simp
  ultimately show ?thesis using f(1,2) install_failed(5) by blast
next
  case (finalized pre g' p md ud e1 e2 e3)
  note pe = prepare_guest_events[OF finalized(2)]
  note fe = finalize_image_events[OF finalized(4)]
  from assms(2) finalized(1,5) pe fe have "IsUp g t False \<in> set e2"
    by (auto simp: list_all_iff)
  from install_cloudinit_not_up[OF finalized(3) this] show ?thesis by simp
qed

theorem readiness_timeout_aborts_witness:
  "IsUp ''bsd'' 60 False \<in> set (snd (cloudimage_from_nuageimage world_not_up image_ok []))
   \<and> fst (cloudimage_from_nuageimage world_not_up image_ok []) = Return 1
   \<and> filter is_run (snd (cloudimage_from_nuageimage world_not_up image_ok [])) = []"
proof -
  have a: "cloudimage_from_nuageimage world_not_up image_ok [] =
      (fst (cloudimage_from_nuageimage world_not_up image_ok []),
       snd (cloudimage_from_nuageimage world_not_up image_ok []))"
    by simp
  have b: "IsUp ''bsd'' 60 False \<in> set (snd (cloudimage_from_nuageimage world_not_up image_ok []))"
    by (simp add: pipeline_defs world_defs)
  from readiness_timeout_aborts[OF a b] b show ?thesis by simp
qed

section \<open>A failing install command\<close>

text \<open>
  C2. In every run of the pipeline in which a remote command of the install script returns a
  non-zero code, the pipeline returns that code, and the run ends right there: after the
  failing command come only its error log, one kill of the guest and the abort log, so no
  further command is issued. That kill is the only one from the first start of the guest on
  (the kill of line 95 precedes every boot), and the checksum of the finalize stage is never
  computed.
\<close>

theorem install_failure_kills_once:
  assumes "cloudimage_from_nuageimage w image_conf h = (out, evs)"
    and "Run c t err \<in> set evs" and "err \<noteq> 0"
  shows "out = Return err \<and>
    (\<exists>pre g. evs = pre @ [Run c t err, LogError ''Error running cmd({cmd}): {err}'', Kill g,
                           LogError ''Could not install cloud-init'']) \<and>
    length (filter is_kill (dropWhile (\<lambda>e. \<not> is_start e) evs)) = 1 \<and>
    filter is_checksum evs = []"
  using assms(1)
proof (cases rule: pipeline_cases)
  case early
  with assms(2) show ?thesis by (auto simp: list_all_iff)
next
  case (prepare_failed pre g p md ud e1 err')
  from prepare_guest_events[OF prepare_failed(2)] prepare_failed(1,5) assms(2)
  show ?thesis by (auto simp: list_all_iff)
next
  case (install_failed pre g p md ud e1 e2 err')
  note pe = prepare_guest_events[OF install_failed(2)]
  from assms(2) install_failed(1,6) pe have "Run c t err \<in> set e2"
    by (auto simp: list_all_iff)
  from install_cloudinit_cmd_failed[OF install_failed(3) this assms(3)]
  obtain e' where f: "err' = err" "filter is_kill e' = []" "\<exists>x\<in>set e'. is_start x"
    "e2 = e' @ [Run c t err, LogError ''Error running cmd({cmd}): {err}'', Kill g]"
    by auto
  have nostart: "\<forall>x\<in>set (pre @ e1). \<not> is_start x"
    using install_failed(1) pe by (auto simp: list_all_iff dest: fetch_event_kinds prepare_event_kinds)
  have "dropWhile (\<lambda>e. \<not> is_start e) evs =
      dropWhile (\<lambda>e. \<not> is_start e) (e' @ [Run c t err, LogError ''Error running cmd({cmd}): {err}'', Kill g,
                           LogError ''Could not install cloud-init''])"
    using dropWhile_append2[of "pre @ e1" "\<lambda>e. \<not> is_start e"] nostart install_failed(6) f(4) by simp
  also have "\<dots> = dropWhile (\<lambda>e. \<not> is_start e) e' @ [Run c t err, LogError ''Error running cmd({cmd}): {err}'', Kill g,
                           LogError ''Could not install cloud-init'']"
  proof -
    from f(3) obtain x where "x \<in> set e'" "\<not> \<not> is_start x" by auto
    then show ?thesis by (rule dropWhile_append1)
  qed
  finally have "length (filter is_kill (dropWhile (\<lambda>e. \<not> is_start e) evs)) = 1"
    using filter_dropWhile_empty[OF f(2), of "\<lambda>e. \<not> is_start e"] by simp
  moreover have "filter is_checksum evs = []"
    using install_failed(1,6) prepare_guest_no_checksum[OF install_failed(2)]
      install_cloudinit_events[OF install_failed(3)]
    by (auto simp: list_all_iff filter_empty_conv dest: fetch_event_kinds install_event_kinds)
  moreover have "evs = (pre @ e1 @ e') @ [Run c t err, LogError ''Error running cmd({cmd}): {err}'', Kill g,
                           LogError ''Could not install cloud-init'']"
    using install_failed(6) f(4) by simp
  ultimately show ?thesis using f(1) install_failed(5) by blast
next
  case (finalized pre g p md ud e1 e2 e3)
  note pe = prepare_guest_events[OF finalized(2)]
  note fe = finalize_image_events[OF finalized(4)]
  from assms(2) finalized(1,5) pe fe have "Run c t err \<in> set e2"
    by (auto simp: list_all_iff)
  from install_cloudinit_cmd_failed[OF finalized(3) this assms(3)] show ?thesis by simp
qed

theorem install_failure_kills_once_witness:
  "Run (cmds ! 1) ''default_freebsd'' 70 \<in> set (snd (cloudimage_from_nuageimage world_cmd_fails image_ok []))
   \<and> (70::int) \<noteq> 0
   \<and> fst (cloudimage_from_nuageimage world_cmd_fails image_ok []) = Return 70
   \<and> length (filter is_kill (dropWhile (\<lambda>e. \<not> is_start e)
        (snd (cloudimage_from_nuageimage world_cmd_fails image_ok [])))) = 1"
proof -
  have a: "cloudimage_from_nuageimage world_cmd_fails image_ok [] =
      (fst (cloudimage_from_nuageimage world_cmd_fails image_ok []),
       snd (cloudimage_from_nuageimage world_cmd_fails image_ok []))"
    by simp
  have b: "Run (cmds ! 1) ''default_freebsd'' 70 \<in> set (snd (cloudimage_from_nuageimage world_cmd_fails image_ok []))"
    by (simp add: pipeline_defs world_defs)
  have c: "(70::int) \<noteq> 0" by simp
  from install_failure_kills_once[OF a b c] b show ?thesis by simp
qed

section \<open>The two boot phases\<close>

text \<open>
  C4. In every run of the pipeline the boots and waits of the guest, in order, are an initial
  part of: a first start that is not daemonized, with the seed volume as \<^verbatim>\<open>-cdrom\<close> and the
  flag \<^verbatim>\<open>-no-reboot\<close>; a wait for termination bounded at 60 seconds; a second start that is
  daemonized, with the same seed volume; a readiness wait bounded at 60 seconds; a last wait
  for termination bounded at 60 seconds. A successful run performs all five, each with a
  positive answer. (That the second start is daemonized is the default of the guest handle,
  \<open>start_daemonize_default\<close>.)
\<close>

theorem two_phase_boot:
  assumes "cloudimage_from_nuageimage w image_conf h = (out, evs)"
  shows "(\<exists>g a b c d f. prefix (filter is_boot evs)
            [Start g False [''-cdrom'', seed_img w g, ''-no-reboot''] a,
             WaitForTermination g 60 b,
             Start g True [''-cdrom'', seed_img w g] c,
             IsUp g 60 d,
             WaitForTermination g 60 f]) \<and>
         (out = Return 0 \<longrightarrow> (\<exists>g. filter is_boot evs =
            [Start g False [''-cdrom'', seed_img w g, ''-no-reboot''] 0,
             WaitForTermination g 60 True,
             Start g True [''-cdrom'', seed_img w g] 0,
             IsUp g 60 True,
             WaitForTermination g 60 True]))"
  using assms(1)
proof (cases rule: pipeline_cases)
  case early
  then have "filter is_boot evs = []"
    by (auto simp: list_all_iff filter_empty_conv dest: fetch_event_kinds)
  with early(2) show ?thesis by simp
next
  case (prepare_failed pre g p md ud e1 err)
  from prepare_guest_events[OF prepare_failed(2)] prepare_failed(1,5)
  have "filter is_boot evs = []"
    by (auto simp: list_all_iff filter_empty_conv dest: fetch_event_kinds prepare_event_kinds)
  with prepare_failed(3,4) show ?thesis by simp
next
  case (install_failed pre g p md ud e1 e2 err)
  from prepare_guest_events[OF install_failed(2)] install_failed(1)
  have "filter is_boot (pre @ e1) = []"
    by (auto simp: list_all_iff filter_empty_conv dest: fetch_event_kinds prepare_event_kinds)
  then have eq: "filter is_boot evs = filter is_boot e2" using install_failed(6) by simp
  from install_cloudinit_boot[OF install_failed(3)] obtain a b c d f where
    "prefix (filter is_boot e2)
            [Start g False ([''-cdrom'', seed_img w g] @ [''-no-reboot'']) a,
             WaitForTermination g 60 b,
             Start g True [''-cdrom'', seed_img w g] c,
             IsUp g 60 d,
             WaitForTermination g 60 f]" by blast
  then have "\<exists>g a b c d f. prefix (filter is_boot evs)
            [Start g False [''-cdrom'', seed_img w g, ''-no-reboot''] a,
             WaitForTermination g 60 b,
             Start g True [''-cdrom'', seed_img w g] c,
             IsUp g 60 d,
             WaitForTermination g 60 f]"
    unfolding eq by (intro exI) simp
  with install_failed(4,5) show ?thesis by simp
next
  case (finalized pre g p md ud e1 e2 e3)
  from prepare_guest_events[OF finalized(2)] finalized(1) finalize_image_events[OF finalized(4)]
  have "filter is_boot (pre @ e1) = []" "filter is_boot e3 = []"
    by (auto simp: list_all_iff filter_empty_conv dest: fetch_event_kinds prepare_event_kinds finalize_event_kinds)
  then have eq: "filter is_boot evs = filter is_boot e2" using finalized(5) by simp
  from install_cloudinit_boot[OF finalized(3)] have full: "filter is_boot e2 =
            [Start g False ([''-cdrom'', seed_img w g] @ [''-no-reboot'']) 0,
             WaitForTermination g 60 True,
             Start g True [''-cdrom'', seed_img w g] 0,
             IsUp g 60 True,
             WaitForTermination g 60 True]" by blast
  have "\<exists>g a b c d f. prefix (filter is_boot evs)
            [Start g False [''-cdrom'', seed_img w g, ''-no-reboot''] a,
             WaitForTermination g 60 b,
             Start g True [''-cdrom'', seed_img w g] c,
             IsUp g 60 d,
             WaitForTermination g 60 f]"
    unfolding eq full by (intro exI) simp
  moreover have "\<exists>g. filter is_boot evs =
            [Start g False [''-cdrom'', seed_img w g, ''-no-reboot''] 0,
             WaitForTermination g 60 True,
             Start g True [''-cdrom'', seed_img w g] 0,
             IsUp g 60 True,
             WaitForTermination g 60 True]"
    unfolding eq full by (intro exI) simp
  ultimately show ?thesis by simp
qed

theorem two_phase_boot_witness:
  "fst (cloudimage_from_nuageimage world_ok image_ok []) = Return 0 \<and>
   filter is_boot (snd (cloudimage_from_nuageimage world_ok image_ok [])) =
     [Start ''bsd'' False [''-cdrom'', ''guests/bsd/seed.img'', ''-no-reboot''] 0,
      WaitForTermination ''bsd'' 60 True,
      Start ''bsd'' True [''-cdrom'', ''guests/bsd/seed.img''] 0,
      IsUp ''bsd'' 60 True,
      WaitForTermination ''bsd'' 60 True]"
proof -
  have a: "cloudimage_from_nuageimage world_ok image_ok [] =
      (fst (cloudimage_from_nuageimage world_ok image_ok []),
       snd (cloudimage_from_nuageimage world_ok image_ok []))"
    by simp
  have b: "fst (cloudimage_from_nuageimage world_ok image_ok []) = Return 0"
    by (simp add: pipeline_defs world_defs)
  from two_phase_boot[OF a] b
  obtain g where "filter is_boot (snd (cloudimage_from_nuageimage world_ok image_ok [])) =
            [Start g False [''-cdrom'', seed_img world_ok g, ''-no-reboot''] 0,
             WaitForTermination g 60 True,
             Start g True [''-cdrom'', seed_img world_ok g] 0,
             IsUp g 60 True,
             WaitForTermination g 60 True]" by auto
  moreover have "Start ''bsd'' True [''-cdrom'', ''guests/bsd/seed.img''] 0 \<in> 
     set (filter is_boot (snd (cloudimage_from_nuageimage world_ok image_ok [])))"
    by (simp add: pipeline_defs world_defs)
  ultimately show ?thesis using b by (auto simp: seed_img_def world_defs)
qed

section \<open>The order of the stages\<close>

text \<open>
  C3. Every run of the pipeline that returns 0 consists of the events of fetch and selection
  followed by exactly these, in this order: the guest handle of the one selected profile,
  which is the first profile of \<^verbatim>\<open>qemu.guests\<close> whose label equals the target label of the
  image (every profile before it is labeled and does not match),
  the kill and the initialisation of the guest, the two copies of the payload, the build of
  the seed volume, the resize of the boot disk (between two \<^verbatim>\<open>qemu-img info\<close>), the install
  phase with its two boots and three commands, all successful, and then the finalize stage:
  the copy to the destination and the checksum. So one guest handle is created, the seed
  volume is built once and the disk is resized once, both before the first start of the
  guest, the checksum is computed once, and from the checksum on no event of the install
  phase occurs.
\<close>

theorem successful_run_order:
  assumes "cloudimage_from_nuageimage w image_conf h = (Return 0, evs)"
  shows "(\<exists>pre g p md ud dst r1 r2 r3 r4 r5 r6.
      evs = pre @
       [NewGuest g, Kill g, Initialize g p,
        RunLocal (''cp '' @ md @ '' '' @ path_join w (guest_path w g) ''meta-data'') r1,
        RunLocal (''cp '' @ ud @ '' '' @ path_join w (guest_path w g) ''user-data'') r2,
        RunLocal (join '' '' [''mkisofs'', ''-output'', seed_img w g, ''-volid'', ''cidata'',
                   ''-joliet'', ''-rock'', path_join w (guest_path w g) ''user-data'',
                   path_join w (guest_path w g) ''meta-data'']) 0,
        RunLocal (''qemu-img info '' @ boot_img w g) r3,
        RunLocal (''qemu-img resize '' @ boot_img w g @ '' 12G'') 0,
        RunLocal (''qemu-img info '' @ boot_img w g) r4] @
       [LogInfo ''initialization_tool is nuage-init, installing cloud-init'',
        Start g False [''-cdrom'', seed_img w g, ''-no-reboot''] 0,
        WaitForTermination g 60 True,
        Start g True [''-cdrom'', seed_img w g] 0,
        IsUp g 60 True,
        Run (cmds ! 0) ''default_freebsd'' 0,
        Run (cmds ! 1) ''default_freebsd'' 0,
        Run (cmds ! 2) ''default_freebsd'' 0,
        WaitForTermination g 60 True] @
       [Mkdir (path_parent w dst),
        RunLocal (''cp '' @ boot_img w g @ '' '' @ dst) 0,
        RunLocal (''sha256sum '' @ dst @ '' > '' @ dst @ ''.sha256'') 0,
        RunLocal (''ls -la '' @ dst) r5,
        RunLocal (''cat '' @ dst @ ''.sha256'') r6] \<and>
      list_all is_fetch_event pre \<and>
      (\<exists>before c after.
         getconf w ''qemu.guests'' (PDict []) = PDict (before @ (g, c) # after) \<and>
         matches (dict_get image_conf ''system_label'' PNone) c \<and>
         list_all (\<lambda>(m, d). is_profile d \<and> \<not> unlabeled d \<and>
                     \<not> matches (dict_get image_conf ''system_label'' PNone) d) before)) \<and>
    length (filter is_new_guest evs) = 1 \<and>
    length (filter is_seed_build evs) = 1 \<and>
    length (filter is_seed_build (takeWhile (\<lambda>e. \<not> is_start e) evs)) = 1 \<and>
    length (filter is_resize evs) = 1 \<and>
    length (filter is_resize (takeWhile (\<lambda>e. \<not> is_start e) evs)) = 1 \<and>
    length (filter is_checksum evs) = 1 \<and>
    filter is_install_event (dropWhile (\<lambda>e. \<not> is_checksum e) evs) = []"
  using assms
proof (cases rule: pipeline_cases)
  case early
  then show ?thesis by simp
next
  case (prepare_failed pre g p md ud e1 err)
  then show ?thesis by simp
next
  case (install_failed pre g p md ud e1 e2 err)
  then show ?thesis by simp
next
  case (finalized pre g p md ud e1 e2 e3)
  let ?A = "\<lambda>r1 r2 r3 r4.
       [NewGuest g, Kill g, Initialize g p,
        RunLocal (''cp '' @ md @ '' '' @ path_join w (guest_path w g) ''meta-data'') r1,
        RunLocal (''cp '' @ ud @ '' '' @ path_join w (guest_path w g) ''user-data'') r2,
        RunLocal (join '' '' [''mkisofs'', ''-output'', seed_img w g, ''-volid'', ''cidata'',
                   ''-joliet'', ''-rock'', path_join w (guest_path w g) ''user-data'',
                   path_join w (guest_path w g) ''meta-data'']) 0,
        RunLocal (''qemu-img info '' @ boot_img w g) r3,
        RunLocal (''qemu-img resize '' @ boot_img w g @ '' 12G'') 0,
        RunLocal (''qemu-img info '' @ boot_img w g) r4]"
  let ?B = "[LogInfo ''initialization_tool is nuage-init, installing cloud-init'',
        Start g False [''-cdrom'', seed_img w g, ''-no-reboot''] 0,
        WaitForTermination g 60 True,
        Start g True [''-cdrom'', seed_img w g] 0,
        IsUp g 60 True,
        Run (cmds ! 0) ''default_freebsd'' 0,
        Run (cmds ! 1) ''default_freebsd'' 0,
        Run (cmds ! 2) ''default_freebsd'' 0,
        WaitForTermination g 60 True]"
  let ?C = "\<lambda>dst r5 r6.
       [Mkdir (path_parent w dst),
        RunLocal (''cp '' @ boot_img w g @ '' '' @ dst) 0,
        RunLocal (''sha256sum '' @ dst @ '' > '' @ dst @ ''.sha256'') 0,
        RunLocal (''ls -la '' @ dst) r5,
        RunLocal (''cat '' @ dst @ ''.sha256'') r6]"
  from prepare_guest_None[OF finalized(2)] obtain r1 r2 r3 r4 where A: "e1 = ?A r1 r2 r3 r4"
    by blast
  have B: "e2 = ?B" using install_cloudinit_None[OF finalized(3)] by simp
  from finalize_image_ok[OF finalized(4)] obtain dst r5 r6 where C: "e3 = ?C dst r5 r6"
    by blast
  have evs: "evs = pre @ ?A r1 r2 r3 r4 @ ?B @ ?C dst r5 r6"
    by (simp only: finalized(5) A B C)
  from select_guest_Inr[OF finalized(6)] obtain before c after where
    sel: "getconf w ''qemu.guests'' (PDict []) = PDict (before @ (g, c) # after)"
      "matches (dict_get image_conf ''system_label'' PNone) c"
      "list_all (\<lambda>(m, d). is_profile d \<and> \<not> unlabeled d \<and>
                  \<not> matches (dict_get image_conf ''system_label'' PNone) d) before"
    by blast
  have struct: "\<exists>pre g p md ud dst r1 r2 r3 r4 r5 r6.
      evs = pre @
       [NewGuest g, Kill g, Initialize g p,
        RunLocal (''cp '' @ md @ '' '' @ path_join w (guest_path w g) ''meta-data'') r1,
        RunLocal (''cp '' @ ud @ '' '' @ path_join w (guest_path w g) ''user-data'') r2,
        RunLocal (join '' '' [''mkisofs'', ''-output'', seed_img w g, ''-volid'', ''cidata'',
                   ''-joliet'', ''-rock'', path_join w (guest_path w g) ''user-data'',
                   path_join w (guest_path w g) ''meta-data'']) 0,
        RunLocal (''qemu-img info '' @ boot_img w g) r3,
        RunLocal (''qemu-img resize '' @ boot_img w g @ '' 12G'') 0,
        RunLocal (''qemu-img info '' @ boot_img w g) r4] @
       [LogInfo ''initialization_tool is nuage-init, installing cloud-init'',
        Start g False [''-cdrom'', seed_img w g, ''-no-reboot''] 0,
        WaitForTermination g 60 True,
        Start g True [''-cdrom'', seed_img w g] 0,
        IsUp g 60 True,
        Run (cmds ! 0) ''default_freebsd'' 0,
        Run (cmds ! 1) ''default_freebsd'' 0,
        Run (cmds ! 2) ''default_freebsd'' 0,
        WaitForTermination g 60 True] @
       [Mkdir (path_parent w dst),
        RunLocal (''cp '' @ boot_img w g @ '' '' @ dst) 0,
        RunLocal (''sha256sum '' @ dst @ '' > '' @ dst @ ''.sha256'') 0,
        RunLocal (''ls -la '' @ dst) r5,
        RunLocal (''cat '' @ dst @ ''.sha256'') r6] \<and>
      list_all is_fetch_event pre \<and>
      (\<exists>before c after.
         getconf w ''qemu.guests'' (PDict []) = PDict (before @ (g, c) # after) \<and>
         matches (dict_get image_conf ''system_label'' PNone) c \<and>
         list_all (\<lambda>(m, d). is_profile d \<and> \<not> unlabeled d \<and>
                     \<not> matches (dict_get image_conf ''system_label'' PNone) d) before)"
    by (intro exI conjI, rule evs, rule finalized(1), rule sel(1), rule sel(2), rule sel(3))
  have pre: "filter is_new_guest pre = []" "filter is_seed_build pre = []"
    "filter is_resize pre = []" "filter is_checksum pre = []"
    "\<And>x. x \<in> set pre \<Longrightarrow> \<not> is_start x" "\<And>x. x \<in> set pre \<Longrightarrow> \<not> is_checksum x"
    using finalized(1) by (auto simp: list_all_iff filter_empty_conv dest: fetch_event_kinds)
  have c1: "length (filter is_new_guest evs) = 1" unfolding evs using pre by simp
  have c2: "length (filter is_seed_build evs) = 1" unfolding evs using pre by simp
  have c3: "length (filter is_resize evs) = 1" unfolding evs using pre by simp
  have c4: "length (filter is_checksum evs) = 1" unfolding evs using pre by simp
  have tw: "takeWhile (\<lambda>e. \<not> is_start e) evs =
      pre @ ?A r1 r2 r3 r4 @ [LogInfo ''initialization_tool is nuage-init, installing cloud-init'']"
    unfolding evs using pre(5) by (simp add: takeWhile_append2)
  have c5: "length (filter is_seed_build (takeWhile (\<lambda>e. \<not> is_start e) evs)) = 1"
    unfolding tw using pre by simp
  have c6: "length (filter is_resize (takeWhile (\<lambda>e. \<not> is_start e) evs)) = 1"
    unfolding tw using pre by simp
  have dw: "dropWhile (\<lambda>e. \<not> is_checksum e) evs =
      [RunLocal (''sha256sum '' @ dst @ '' > '' @ dst @ ''.sha256'') 0,
       RunLocal (''ls -la '' @ dst) r5,
       RunLocal (''cat '' @ dst @ ''.sha256'') r6]"
    unfolding evs using pre(6) by (simp add: dropWhile_append2)
  have c7: "filter is_install_event (dropWhile (\<lambda>e. \<not> is_checksum e) evs) = []"
    unfolding dw by simp
  from struct c1 c2 c3 c4 c5 c6 c7 show ?thesis by blast
qed

theorem successful_run_order_witness:
  "cloudimage_from_nuageimage world_ok image_ok [] =
     (Return 0, snd (cloudimage_from_nuageimage world_ok image_ok [])) \<and>
   length (filter is_new_guest (snd (cloudimage_from_nuageimage world_ok image_ok []))) = 1 \<and>
   length (filter is_seed_build (snd (cloudimage_from_nuageimage world_ok image_ok []))) = 1 \<and>
   length (filter is_resize (snd (cloudimage_from_nuageimage world_ok image_ok []))) = 1 \<and>
   length (filter is_checksum (snd (cloudimage_from_nuageimage world_ok image_ok []))) = 1"
proof -
  have "fst (cloudimage_from_nuageimage world_ok image_ok []) = Return 0"
    by (simp add: pipeline_defs world_defs)
  then have a: "cloudimage_from_nuageimage world_ok image_ok [] =
     (Return 0, snd (cloudimage_from_nuageimage world_ok image_ok []))"
    by (metis prod.collapse)
  from successful_run_order[OF a] a show ?thesis by blast
qed

section \<open>Selection of the guest\<close>

text \<open>
  C1, as stated, fails: with a labeled profile that matches the target label first and an
  unlabeled profile after it, the loop of lines 80 to 88 leaves at the match, the unlabeled
  profile is never examined, the matching guest is selected and the pipeline returns 0.
\<close>

theorem eager_validation_counterexample:
  "getconf world_unlabeled_last ''qemu.guests'' (PDict []) =
     PDict [(''bsd'', PDict [(''system_label'', PStr ''freebsd'')]),
            (''spare'', PDict [(''cpu'', PStr ''host'')])] \<and>
   unlabeled (PDict [(''cpu'', PStr ''host'')]) \<and>
   select_guest world_unlabeled_last image_ok = (Inr ''bsd'', []) \<and>
   fst (cloudimage_from_nuageimage world_unlabeled_last image_ok []) = Return 0"
  by (simp add: pipeline_defs world_defs)

text \<open>
  C1, amended. Selection is decided by the first profile, in iteration order, that is
  unlabeled or matches the target label. If that profile is unlabeled, selection fails with
  \<open>EINVAL\<close> and the report of the malformed profile, whatever comes after it, a matching
  profile included. If it matches, it is the selected guest, whatever comes after it.
\<close>

theorem select_guest_first_decisive:
  assumes "getconf w ''qemu.guests'' (PDict []) = PDict (pre @ (n, c) # post)"
    and "list_all (\<lambda>(m, d). is_profile d \<and> \<not> unlabeled d \<and>
                   \<not> matches (dict_get image_conf ''system_label'' PNone) d) pre"
  shows "(unlabeled c \<longrightarrow>
            fst (select_guest w image_conf) = Inl (Return EINVAL) \<and>
            last (snd (select_guest w image_conf)) =
              LogError (''guest_name({cur_guest_name}) is missing 'system_label'' @ [CHR 0x27])) \<and>
         (matches (dict_get image_conf ''system_label'' PNone) c \<longrightarrow>
            fst (select_guest w image_conf) = Inr n)"
proof -
  note fg = find_guest_first_decisive[OF assms(2), of n c post]
  show ?thesis
  proof (cases c)
    case PNone then show ?thesis by simp
  next
    case (PStr s) then show ?thesis by simp
  next
    case (PDict g)
    then show ?thesis using assms(1) fg
      by (auto simp: select_guest_def Let_def)
  qed
qed

theorem select_guest_first_decisive_witness:
  "getconf world_unlabeled_first ''qemu.guests'' (PDict []) =
     PDict ([] @ (''spare'', PDict [(''cpu'', PStr ''host'')]) #
            [(''bsd'', PDict [(''system_label'', PStr ''freebsd'')])]) \<and>
   unlabeled (PDict [(''cpu'', PStr ''host'')]) \<and>
   fst (select_guest world_unlabeled_first image_ok) = Inl (Return EINVAL) \<and>
   getconf world_unlabeled_last ''qemu.guests'' (PDict []) =
     PDict ([] @ (''bsd'', PDict [(''system_label'', PStr ''freebsd'')]) #
            [(''spare'', PDict [(''cpu'', PStr ''host'')])]) \<and>
   matches (dict_get image_ok ''system_label'' PNone) (PDict [(''system_label'', PStr ''freebsd'')]) \<and>
   fst (select_guest world_unlabeled_last image_ok) = Inr ''bsd''"
proof -
  have a1: "getconf world_unlabeled_first ''qemu.guests'' (PDict []) =
     PDict ([] @ (''spare'', PDict [(''cpu'', PStr ''host'')]) #
            [(''bsd'', PDict [(''system_label'', PStr ''freebsd'')])])"
    by (simp add: getconf_def world_defs)
  have a2: "getconf world_unlabeled_last ''qemu.guests'' (PDict []) =
     PDict ([] @ (''bsd'', PDict [(''system_label'', PStr ''freebsd'')]) #
            [(''spare'', PDict [(''cpu'', PStr ''host'')])])"
    by (simp add: getconf_def world_defs)
  have e: "list_all (\<lambda>(m, d). is_profile d \<and> \<not> unlabeled d \<and>
                   \<not> matches (dict_get image_ok ''system_label'' PNone) d) []"
    by simp
  have u: "unlabeled (PDict [(''cpu'', PStr ''host'')])" by (simp add: dict_get_def)
  have m: "matches (dict_get image_ok ''system_label'' PNone) (PDict [(''system_label'', PStr ''freebsd'')])"
    by (simp add: dict_get_def image_ok_def)
  from select_guest_first_decisive[OF a1 e] select_guest_first_decisive[OF a2 e] a1 a2 u m
  show ?thesis by blast
qed

section \<open>The fetch of the base image\<close>

text \<open>
  C9, as stated, fails: when the cache path exists and a decompressed path is configured
  that does not exist yet, the cached file is decompressed (lines 62 to 65), so a run with an
  existing cache path can perform a decompression call.
\<close>

theorem idempotent_fetch_counterexample:
  "path_exists world_cached [] ''cache/bsd.qcow2.xz'' \<and>
   filter is_decompress (snd (cloudimage_from_nuageimage world_cached image_compressed [])) =
     [Decompress ''cache/bsd.qcow2.xz'' ''/srv/cache/bsd.qcow2'' 0]"
  by (simp add: pipeline_defs world_defs)

text \<open>
  C9, amended. When the cache path exists, the fetch performs no download call, whatever
  the source URL is. If no decompressed path is configured, it does nothing beyond the
  existence check and hands on the cache path. If a decompressed path is configured and the
  resolved path exists, it does nothing beyond the two existence checks and hands on the
  resolved decompressed path. If a decompressed path is configured and does not exist, it
  performs exactly one decompression call.
\<close>

theorem fetch_with_cache:
  assumes "path_exists w h nuage_image_path"
  shows "filter is_download (snd (fetch_nuageimage w nuage nuage_image_path nuage_image_url h)) = [] \<and>
    (\<not> truthy (dict_get nuage ''decompressed_path'' PNone) \<longrightarrow>
       fetch_nuageimage w nuage nuage_image_path nuage_image_url h =
         (Inr nuage_image_path, [Exists nuage_image_path True])) \<and>
    (dict_get nuage ''decompressed_path'' PNone = PStr s \<and> s \<noteq> [] \<and>
     path_exists w (h @ [Exists nuage_image_path True]) (path_resolve w (path_str w s)) \<longrightarrow>
       fetch_nuageimage w nuage nuage_image_path nuage_image_url h =
         (Inr (path_resolve w (path_str w s)),
          [Exists nuage_image_path True, Exists (path_resolve w (path_str w s)) True])) \<and>
    (dict_get nuage ''decompressed_path'' PNone = PStr s \<and> s \<noteq> [] \<and>
     \<not> path_exists w (h @ [Exists nuage_image_path True]) (path_resolve w (path_str w s)) \<longrightarrow>
       length (filter is_decompress
         (snd (fetch_nuageimage w nuage nuage_image_path nuage_image_url h))) = 1)"
  using assms
  by (auto simp: fetch_nuageimage_def download_nuageimage_def decompress_nuageimage_def Let_def
      split: sum.splits)

theorem fetch_with_cache_witness:
  "path_exists world_ok [] ''cache/bsd.qcow2.xz'' \<and>
   dict_get [(''decompressed_path'', PStr ''cache/bsd.qcow2'')] ''decompressed_path'' PNone =
     PStr ''cache/bsd.qcow2'' \<and> ''cache/bsd.qcow2'' \<noteq> [] \<and>
   path_exists world_ok ([] @ [Exists ''cache/bsd.qcow2.xz'' True])
     (path_resolve world_ok (path_str world_ok ''cache/bsd.qcow2'')) \<and>
   fetch_nuageimage world_ok [(''decompressed_path'', PStr ''cache/bsd.qcow2'')]
     ''cache/bsd.qcow2.xz'' (PStr ''no such url'') [] =
     (Inr ''/srv/cache/bsd.qcow2'',
      [Exists ''cache/bsd.qcow2.xz'' True, Exists ''/srv/cache/bsd.qcow2'' True])"
proof -
  have a: "path_exists world_ok [] ''cache/bsd.qcow2.xz''" by (simp add: world_defs)
  have b: "dict_get [(''decompressed_path'', PStr ''cache/bsd.qcow2'')] ''decompressed_path'' PNone =
     PStr ''cache/bsd.qcow2'' \<and> ''cache/bsd.qcow2'' \<noteq> [] \<and>
     path_exists world_ok ([] @ [Exists ''cache/bsd.qcow2.xz'' True])
       (path_resolve world_ok (path_str world_ok ''cache/bsd.qcow2''))"
    by (simp add: world_defs dict_get_def)
  have c: "path_resolve world_ok (path_str world_ok ''cache/bsd.qcow2'') = ''/srv/cache/bsd.qcow2''"
    by (simp add: world_defs)
  from fetch_with_cache[OF a, where nuage = "[(''decompressed_path'', PStr ''cache/bsd.qcow2'')]"
      and s = "''cache/bsd.qcow2''" and nuage_image_url = "PStr ''no such url''"] a b
  show ?thesis unfolding c by blast
qed

section \<open>Missing paths\<close>

text \<open>
  C6. The claim is that a missing \<^verbatim>\<open>nuage.path\<close> or \<^verbatim>\<open>cloud.path\<close> is reported as a
  configuration error. The script instead passes the \<^verbatim>\<open>None\<close> of \<^verbatim>\<open>.get("path")\<close> to
  \<^verbatim>\<open>Path\<close>, which raises \<^verbatim>\<open>TypeError\<close>: at line 43 before any effect when the source path is
  missing, and at line 147, after the whole install phase with its three remote commands,
  when the destination path is missing.
\<close>

theorem missing_path_raises:
  "cloudimage_from_nuageimage w image_no_nuage_path h = (Raise TypeError, []) \<and>
   fst (cloudimage_from_nuageimage world_ok image_no_cloud_path []) = Raise TypeError \<and>
   length (filter is_run (snd (cloudimage_from_nuageimage world_ok image_no_cloud_path []))) = 3"
  by (simp add: pipeline_defs world_defs)

section \<open>A missing target label\<close>

text \<open>
  C7. The claim is that a missing \<^verbatim>\<open>system_label\<close> stops the pipeline at once. The script
  logs the error at line 75 and goes on (\<^verbatim>\<open>pass\<close>): the guest profiles are searched with
  the label \<^verbatim>\<open>None\<close>, and the run ends with the error of the selection.
\<close>

theorem missing_label_goes_on:
  "cloudimage_from_nuageimage world_ok image_no_label [] =
     (Return EINVAL,
      [Exists ''cache/bsd.qcow2'' True,
       LogError ''missing .system_label entry in configuration file'',
       LogError ''Could not find a guest to use for cloudimage creation''])"
  by (simp add: pipeline_defs world_defs)

section \<open>Failing copies of the payload\<close>

text \<open>
  C8. The claim is that a failing copy of the metadata or user-data file aborts the
  pipeline before the seed volume is built. The script assigns the result of both copies
  (lines 100 and 102) and never tests it: with both copies failing, the seed volume is
  built all the same and the pipeline runs to its end and returns 0.
\<close>

theorem failed_payload_copy_ignored:
  "fst (cloudimage_from_nuageimage world_cp_fails image_ok []) = Return 0 \<and>
   filter is_prepare_event (snd (cloudimage_from_nuageimage world_cp_fails image_ok [])) =
     [NewGuest ''bsd'', Kill ''bsd'', Initialize ''bsd'' ''cache/bsd.qcow2'',
      RunLocal ''cp aux/meta guests/bsd/meta-data'' 1,
      RunLocal ''cp aux/user guests/bsd/user-data'' 1,
      RunLocal ''mkisofs -output guests/bsd/seed.img -volid cidata -joliet -rock guests/bsd/user-data guests/bsd/meta-data'' 0,
      RunLocal ''qemu-img info guests/bsd/boot.img'' 0,
      RunLocal ''qemu-img resize guests/bsd/boot.img 12G'' 0,
      RunLocal ''qemu-img info guests/bsd/boot.img'' 0,
      RunLocal ''cp guests/bsd/boot.img out/cloud.qcow2'' 0,
      RunLocal ''sha256sum out/cloud.qcow2 > out/cloud.qcow2.sha256'' 0,
      RunLocal ''ls -la out/cloud.qcow2'' 0,
      RunLocal ''cat out/cloud.qcow2.sha256'' 0]"
  by (simp add: pipeline_defs world_defs)

end
